theory Spec2Isabelle
  imports Complex_Main "HOL-Library.AList"
begin

section \<open>JavaScript values\<close>

text \<open>
  The two entry points, the explore view (lines 1 to 59 of \<^verbatim>\<open>explorev2/index.jsx\<close>) and
  SQL Lab (lines 60 to 94 of the same source file), read a JSON text from a DOM attribute,
  decode it and merge the decoded object with other fields.
  A JavaScript string is a sequence of UTF-16 code units; a code unit is a natural number
  here, and \<open>js\<close> turns an ASCII literal into its code units.
\<close>

type_synonym jsstring = "nat list"

definition js :: "string \<Rightarrow> jsstring" where
  "js s = map of_char s"

text \<open>
  A number is its exact decimal value (the rounding of \<^verbatim>\<open>JSON.parse\<close> to an IEEE double is
  not part of the model). An object is the list of its own properties in creation order;
  only the lookup of a key is ever observed.
\<close>

datatype jsval =
    JUndefined
  | JNull
  | JBool bool
  | JNumber rat
  | JString jsstring
  | JArray "jsval list"
  | JObject "(jsstring \<times> jsval) list"

section \<open>\<^verbatim>\<open>JSON.parse\<close>\<close>

subsection \<open>Tokens\<close>

datatype token =
    TLBrace | TRBrace | TLBracket | TRBracket | TColon | TComma
  | TString jsstring | TNumber rat | TTrue | TFalse | TNull

definition is_ws :: "nat \<Rightarrow> bool" where
  "is_ws c = (c = 32 \<or> c = 9 \<or> c = 10 \<or> c = 13)"

definition is_digit :: "nat \<Rightarrow> bool" where
  "is_digit c = (48 \<le> c \<and> c \<le> 57)"

definition is_lower :: "nat \<Rightarrow> bool" where
  "is_lower c = (97 \<le> c \<and> c \<le> 122)"

text \<open>The characters a number lexeme is made of: digits, \<^verbatim>\<open>+ - . e E\<close>.\<close>

definition is_numchar :: "nat \<Rightarrow> bool" where
  "is_numchar c = (is_digit c \<or> c = 43 \<or> c = 45 \<or> c = 46 \<or> c = 101 \<or> c = 69)"

definition hex_value :: "nat \<Rightarrow> nat option" where
  "hex_value c =
     (if 48 \<le> c \<and> c \<le> 57 then Some (c - 48)
      else if 65 \<le> c \<and> c \<le> 70 then Some (c - 55)
      else if 97 \<le> c \<and> c \<le> 102 then Some (c - 87)
      else None)"

text \<open>The single-character escapes \<^verbatim>\<open>\" \\ \/ \b \f \n \r \t\<close>.\<close>

definition escape_char :: "nat \<Rightarrow> nat option" where
  "escape_char c =
     (if c = 34 \<or> c = 92 \<or> c = 47 then Some c
      else if c = 98 then Some 8
      else if c = 102 then Some 12
      else if c = 110 then Some 10
      else if c = 114 then Some 13
      else if c = 116 then Some 9
      else None)"

definition punct :: "nat \<Rightarrow> token option" where
  "punct c =
     (if c = 123 then Some TLBrace
      else if c = 125 then Some TRBrace
      else if c = 91 then Some TLBracket
      else if c = 93 then Some TRBracket
      else if c = 58 then Some TColon
      else if c = 44 then Some TComma
      else None)"

definition word_token :: "jsstring \<Rightarrow> token option" where
  "word_token s =
     (if s = js ''true'' then Some TTrue
      else if s = js ''false'' then Some TFalse
      else if s = js ''null'' then Some TNull
      else None)"

text \<open>The value of a digit sequence, most significant digit first.\<close>

definition dec :: "nat list \<Rightarrow> nat" where
  "dec ds = foldl (\<lambda>n d. 10 * n + (d - 48)) 0 ds"

text \<open>The fraction of a number: nothing, or a dot and at least one digit.\<close>

definition frac_part :: "nat list \<Rightarrow> (nat list \<times> nat list) option" where
  "frac_part r =
     (case r of
        [] \<Rightarrow> Some ([], [])
      | c # r' \<Rightarrow>
          if c = 46 then
            (if takeWhile is_digit r' = [] then None
             else Some (takeWhile is_digit r', dropWhile is_digit r'))
          else Some ([], r))"

text \<open>The digits of an exponent: an optional sign and at least one digit, up to the end.\<close>

definition exp_digits :: "nat list \<Rightarrow> (bool \<times> nat list) option" where
  "exp_digits r =
     (let signed = (case r of [] \<Rightarrow> (False, []) | c # r' \<Rightarrow>
                      if c = 45 then (True, r') else if c = 43 then (False, r') else (False, r))
      in if snd signed \<noteq> [] \<and> list_all is_digit (snd signed) then Some signed else None)"

definition exp_part :: "nat list \<Rightarrow> int option" where
  "exp_part r =
     (case r of
        [] \<Rightarrow> Some 0
      | c # r' \<Rightarrow>
          if c = 101 \<or> c = 69 then
            (case exp_digits r' of
               None \<Rightarrow> None
             | Some (neg, ds) \<Rightarrow> Some (if neg then - int (dec ds) else int (dec ds)))
          else None)"

definition scale :: "rat \<Rightarrow> int \<Rightarrow> rat" where
  "scale m e = (if 0 \<le> e then m * 10 ^ nat e else m / 10 ^ nat (- e))"

text \<open>
  The JSON number grammar: an optional minus, an integer part without a leading zero
  (unless it is the single digit 0), an optional fraction, an optional exponent.
\<close>

definition unsigned_value :: "nat list \<Rightarrow> rat option" where
  "unsigned_value s =
     (let ip = takeWhile is_digit s in
      if ip = [] \<or> (hd ip = 48 \<and> 1 < length ip) then None
      else
        (case frac_part (dropWhile is_digit s) of
           None \<Rightarrow> None
         | Some (fs, r) \<Rightarrow>
             (case exp_part r of
                None \<Rightarrow> None
              | Some e \<Rightarrow>
                  Some (scale (of_nat (dec ip) + of_nat (dec fs) / 10 ^ length fs) e))))"

definition number_value :: "nat list \<Rightarrow> rat option" where
  "number_value s =
     (case s of
        [] \<Rightarrow> None
      | c # r \<Rightarrow>
          if c = 45 then map_option uminus (unsigned_value r) else unsigned_value s)"

text \<open>
  The lexer reads the text once. Its mode says what it is in the middle of; the lists of
  a mode are the characters read so far, last one first.
\<close>

datatype lexmode =
    Between
  | InString "nat list"
  | InEscape "nat list"
  | InUnicode "nat list" "nat list"
  | InNumber "nat list"
  | InWord "nat list"

function lexer :: "lexmode \<Rightarrow> token list \<Rightarrow> nat list \<Rightarrow> token list option" where
  "lexer Between ts [] = Some (rev ts)"
| "lexer (InNumber acc) ts [] =
     (case number_value (rev acc) of
        None \<Rightarrow> None
      | Some n \<Rightarrow> Some (rev (TNumber n # ts)))"
| "lexer (InWord acc) ts [] =
     (case word_token (rev acc) of
        None \<Rightarrow> None
      | Some t \<Rightarrow> Some (rev (t # ts)))"
| "lexer (InString acc) ts [] = None"
| "lexer (InEscape acc) ts [] = None"
| "lexer (InUnicode acc hs) ts [] = None"
| "lexer Between ts (c # cs) =
     (if is_ws c then lexer Between ts cs
      else if c = 34 then lexer (InString []) ts cs
      else if is_digit c \<or> c = 45 then lexer (InNumber [c]) ts cs
      else if is_lower c then lexer (InWord [c]) ts cs
      else (case punct c of
              None \<Rightarrow> None
            | Some t \<Rightarrow> lexer Between (t # ts) cs))"
| "lexer (InString acc) ts (c # cs) =
     (if c = 34 then lexer Between (TString (rev acc) # ts) cs
      else if c = 92 then lexer (InEscape acc) ts cs
      else if c < 32 then None
      else lexer (InString (c # acc)) ts cs)"
| "lexer (InEscape acc) ts (c # cs) =
     (if c = 117 then lexer (InUnicode acc []) ts cs
      else (case escape_char c of
              None \<Rightarrow> None
            | Some e \<Rightarrow> lexer (InString (e # acc)) ts cs))"
| "lexer (InUnicode acc hs) ts (c # cs) =
     (case hex_value c of
        None \<Rightarrow> None
      | Some h \<Rightarrow>
          if length hs = 3
          then lexer (InString (foldl (\<lambda>n d. 16 * n + d) 0 (rev (h # hs)) # acc)) ts cs
          else lexer (InUnicode acc (h # hs)) ts cs)"
| "lexer (InNumber acc) ts (c # cs) =
     (if is_numchar c then lexer (InNumber (c # acc)) ts cs
      else (case number_value (rev acc) of
              None \<Rightarrow> None
            | Some n \<Rightarrow> lexer Between (TNumber n # ts) (c # cs)))"
| "lexer (InWord acc) ts (c # cs) =
     (if is_lower c then lexer (InWord (c # acc)) ts cs
      else (case word_token (rev acc) of
              None \<Rightarrow> None
            | Some t \<Rightarrow> lexer Between (t # ts) (c # cs)))"
  by pat_completeness auto

text \<open>
  Every call reads a character, except the two that leave a number or a word at its
  first foreign character and look at that character again in mode \<open>Between\<close>.
\<close>

termination lexer
  by (relation "measure (\<lambda>(m, ts, cs). 2 * length cs + (if m = Between then 0 else 1))") auto

subsection \<open>Values\<close>

text \<open>
  The parser reads the tokens once, with a stack of the arrays and objects that are open.
  A frame holds what its container has so far: the elements of an array (last one first),
  or the properties of an object and the key whose value is being read.
\<close>

datatype frame =
    InArray "jsval list"
  | InObject "(jsstring \<times> jsval) list" jsstring

datatype pstate =
    WantValue
  | AfterOpenBracket
  | AfterOpenBrace
  | WantKey "(jsstring \<times> jsval) list"
  | WantColon "(jsstring \<times> jsval) list" jsstring
  | Have jsval

text \<open>What the first token of a value leads to.\<close>

fun start_value :: "token \<Rightarrow> pstate option" where
  "start_value (TString s) = Some (Have (JString s))"
| "start_value (TNumber n) = Some (Have (JNumber n))"
| "start_value TTrue = Some (Have (JBool True))"
| "start_value TFalse = Some (Have (JBool False))"
| "start_value TNull = Some (Have JNull)"
| "start_value TLBracket = Some AfterOpenBracket"
| "start_value TLBrace = Some AfterOpenBrace"
| "start_value _ = None"

text \<open>
  A key that occurs twice in an object keeps its place and takes the later value, which
  is what \<open>AList.update\<close> does.
\<close>

fun parse :: "pstate \<Rightarrow> frame list \<Rightarrow> token list \<Rightarrow> jsval option" where
  "parse (Have v) [] [] = Some v"
| "parse p st [] = None"
| "parse WantValue st (t # ts) =
     (case start_value t of
        None \<Rightarrow> None
      | Some p \<Rightarrow> parse p st ts)"
| "parse AfterOpenBracket st (t # ts) =
     (if t = TRBracket then parse (Have (JArray [])) st ts
      else (case start_value t of
              None \<Rightarrow> None
            | Some p \<Rightarrow> parse p (InArray [] # st) ts))"
| "parse AfterOpenBrace st (t # ts) =
     (case t of
        TRBrace \<Rightarrow> parse (Have (JObject [])) st ts
      | TString k \<Rightarrow> parse (WantColon [] k) st ts
      | _ \<Rightarrow> None)"
| "parse (WantKey ps) st (t # ts) =
     (case t of
        TString k \<Rightarrow> parse (WantColon ps k) st ts
      | _ \<Rightarrow> None)"
| "parse (WantColon ps k) st (t # ts) =
     (case t of
        TColon \<Rightarrow> parse WantValue (InObject ps k # st) ts
      | _ \<Rightarrow> None)"
| "parse (Have v) [] (t # ts) = None"
| "parse (Have v) (InArray xs # st) (t # ts) =
     (case t of
        TComma \<Rightarrow> parse WantValue (InArray (v # xs) # st) ts
      | TRBracket \<Rightarrow> parse (Have (JArray (rev (v # xs)))) st ts
      | _ \<Rightarrow> None)"
| "parse (Have v) (InObject ps k # st) (t # ts) =
     (case t of
        TComma \<Rightarrow> parse (WantKey (AList.update k v ps)) st ts
      | TRBrace \<Rightarrow> parse (Have (JObject (AList.update k v ps))) st ts
      | _ \<Rightarrow> None)"

text \<open>\<^verbatim>\<open>JSON.parse(text)\<close>: the decoded value, or \<open>None\<close> where it throws a SyntaxError.\<close>

definition JSON_parse :: "jsstring \<Rightarrow> jsval option" where
  "JSON_parse text =
     (case lexer Between [] text of
        None \<Rightarrow> None
      | Some ts \<Rightarrow> parse WantValue [] ts)"

section \<open>Objects and the heap\<close>

text \<open>
  An object of the heap has its own named properties, and, when it is an array or the
  wrapper of a primitive, the value it wraps (\<open>JUndefined\<close> for an ordinary object).
  The properties a value holds inside are values, not references: the two entry points
  write to top-level objects only.
\<close>

record jsobject =
  exotic :: jsval
  props :: "(jsstring \<times> jsval) list"

text \<open>\<^verbatim>\<open>ToObject\<close>: an object of the decoded text as a heap object, a primitive in its wrapper.\<close>

definition to_object :: "jsval \<Rightarrow> jsobject" where
  "to_object v =
     (case v of
        JObject ps \<Rightarrow> \<lparr>exotic = JUndefined, props = ps\<rparr>
      | _ \<Rightarrow> \<lparr>exotic = v, props = []\<rparr>)"

text \<open>The decimal form of an index, the key under which an array holds an element.\<close>

fun digits :: "nat \<Rightarrow> jsstring" where
  "digits n = (if n < 10 then [48 + n] else digits (n div 10) @ [48 + n mod 10])"

declare digits.simps [simp del]

definition indexed :: "jsval list \<Rightarrow> (jsstring \<times> jsval) list" where
  "indexed xs = zip (map digits [0..<length xs]) xs"

text \<open>The elements of an array, the one-unit strings of a string; nothing else has any.\<close>

fun elements :: "jsval \<Rightarrow> jsval list" where
  "elements (JArray xs) = xs"
| "elements (JString s) = map (\<lambda>c. JString [c]) s"
| "elements v = []"

fun has_length :: "jsval \<Rightarrow> bool" where
  "has_length (JArray xs) = True"
| "has_length (JString s) = True"
| "has_length v = False"

text \<open>The own enumerable properties, which is what \<^verbatim>\<open>Object.assign\<close> copies from a source.\<close>

definition own_enumerable :: "jsobject \<Rightarrow> (jsstring \<times> jsval) list" where
  "own_enumerable obj = indexed (elements (exotic obj)) @ props obj"

text \<open>What an array or a string has by itself: its length and its elements.\<close>

definition intrinsic :: "jsval \<Rightarrow> jsstring \<Rightarrow> jsval option" where
  "intrinsic v k =
     (if k = js ''length'' \<and> has_length v then Some (JNumber (of_nat (length (elements v))))
      else map_of (indexed (elements v)) k)"

text \<open>An own property: a named one, or one the wrapped value has by itself.\<close>

definition own_property :: "jsobject \<Rightarrow> jsstring \<Rightarrow> jsval option" where
  "own_property obj k =
     (case map_of (props obj) k of
        Some v \<Rightarrow> Some v
      | None \<Rightarrow> intrinsic (exotic obj) k)"

text \<open>
  \<^verbatim>\<open>obj.k\<close> on an object: the own property, else \<^verbatim>\<open>undefined\<close>. Inherited properties are
  not modelled; the entry points read \<^verbatim>\<open>form_data\<close> and \<^verbatim>\<open>defaultDbId\<close>, which no
  built-in prototype has.
\<close>

definition get :: "jsobject \<Rightarrow> jsstring \<Rightarrow> jsval" where
  "get obj k = (case own_property obj k of Some v \<Rightarrow> v | None \<Rightarrow> JUndefined)"

text \<open>
  \<^verbatim>\<open>obj[k] = v\<close> as \<^verbatim>\<open>Object.assign\<close> does it. The key \<^verbatim>\<open>__proto__\<close> of an object that has no
  own property of that name reaches the setter of \<^verbatim>\<open>Object.prototype\<close>, which changes the
  prototype and creates no property; the prototype is not part of a \<open>jsobject\<close>. The keys
  the entry points write to an array or a wrapper are names, never an index or \<^verbatim>\<open>length\<close>.
\<close>

definition put :: "jsstring \<times> jsval \<Rightarrow> jsobject \<Rightarrow> jsobject" where
  "put kv obj =
     (if fst kv = js ''__proto__'' \<and> map_of (props obj) (fst kv) = None then obj
      else obj\<lparr>props := AList.update (fst kv) (snd kv) (props obj)\<rparr>)"

text \<open>The properties of one source, in order: a later one overrides an earlier one.\<close>

definition assign :: "(jsstring \<times> jsval) list \<Rightarrow> jsobject \<Rightarrow> jsobject" where
  "assign source obj = fold put source obj"

text \<open>\<^verbatim>\<open>delete obj.k\<close> for a key that is a name.\<close>

definition remove :: "jsstring \<Rightarrow> jsobject \<Rightarrow> jsobject" where
  "remove k obj = obj\<lparr>props := AList.delete k (props obj)\<rparr>"

section \<open>The page, the collaborators and what a run leaves behind\<close>

text \<open>An element is its attributes (the \<^verbatim>\<open>id\<close> among them), a document its elements in order.\<close>

record element =
  attrs :: "(jsstring \<times> jsstring) list"

type_synonym document = "element list"

text \<open>
  The exceptions of a run: the TypeError of a method call, a property read or an
  assignment on \<^verbatim>\<open>null\<close> or \<^verbatim>\<open>undefined\<close>, the SyntaxError of \<^verbatim>\<open>JSON.parse\<close>, and what a
  collaborator throws.
\<close>

datatype reason = MethodOfNull | PropertyOfNull | AssignToNull

datatype error =
    TypeError reason
  | SyntaxError
  | ControlResolutionError
  | Thrown jsval

text \<open>The calls a run makes to the page and to its collaborators, in order.\<close>

datatype event =
    InitJQueryAjaxCSRF
  | GetElementById jsstring
  | GetAttribute jsstring
  | JSONParse jsstring
  | GetControlsState jsval jsval
  | Now
  | GetFormDataFromControls jsval
  | GetInitialState jsval
  | CreateStore nat
  | NavbarHighlight
  | Render nat

record world =
  heap :: "jsobject list"
  trace :: "event list"

definition start :: world where
  "start = \<lparr>heap = [], trace = []\<rparr>"

text \<open>A variable holds a primitive or the address of an object.\<close>

datatype jsref = Prim jsval | Ref nat

text \<open>
  The imported functions, which are not in these two files. \<open>now k\<close> is the reading of the
  clock at the call of \<^verbatim>\<open>now()\<close> that \<open>k\<close> earlier calls precede. A collaborator gets the
  payload as the value it has at the call, and is taken not to change it.
\<close>

record env =
  getControlsState :: "jsval \<Rightarrow> jsval \<Rightarrow> error + jsval"
  getFormDataFromControls :: "jsval \<Rightarrow> error + jsval"
  getInitialState :: "jsval \<Rightarrow> error + jsval"
  now :: "nat \<Rightarrow> rat"

section \<open>Statements\<close>

text \<open>A statement changes the world and yields a value or throws.\<close>

type_synonym 'a stmt = "world \<Rightarrow> (error + 'a) \<times> world"

definition ret :: "'a \<Rightarrow> 'a stmt" where
  "ret x = (\<lambda>w. (Inr x, w))"

definition throw :: "error \<Rightarrow> 'a stmt" where
  "throw e = (\<lambda>w. (Inl e, w))"

definition andThen :: "'a stmt \<Rightarrow> ('a \<Rightarrow> 'b stmt) \<Rightarrow> 'b stmt" where
  "andThen m f = (\<lambda>w. case m w of (Inl e, w') \<Rightarrow> (Inl e, w') | (Inr x, w') \<Rightarrow> f x w')"

definition emit :: "event \<Rightarrow> unit stmt" where
  "emit ev = (\<lambda>w. (Inr (), w\<lparr>trace := trace w @ [ev]\<rparr>))"

definition call :: "event \<Rightarrow> error + 'a \<Rightarrow> 'a stmt" where
  "call ev result = (\<lambda>w. (result, w\<lparr>trace := trace w @ [ev]\<rparr>))"

definition alloc :: "jsobject \<Rightarrow> nat stmt" where
  "alloc obj = (\<lambda>w. (Inr (length (heap w)), w\<lparr>heap := heap w @ [obj]\<rparr>))"

text \<open>The object at an address; an address outside the heap denotes none.\<close>

definition deref :: "world \<Rightarrow> nat \<Rightarrow> jsobject option" where
  "deref w a = (if a < length (heap w) then Some (heap w ! a) else None)"

definition is_nullish :: "jsval \<Rightarrow> bool" where
  "is_nullish v = (v = JNull \<or> v = JUndefined)"

text \<open>\<^verbatim>\<open>document.getElementById(id)\<close>: the first element with that id, or \<^verbatim>\<open>null\<close>.\<close>

definition lookup_id :: "document \<Rightarrow> jsstring \<Rightarrow> element option" where
  "lookup_id document ident = find (\<lambda>el. map_of (attrs el) (js ''id'') = Some ident) document"

definition getElementById :: "document \<Rightarrow> jsstring \<Rightarrow> element option stmt" where
  "getElementById document ident =
     andThen (emit (GetElementById ident)) (\<lambda>_. ret (lookup_id document ident))"

text \<open>\<^verbatim>\<open>el.getAttribute(name)\<close>: the text, or \<^verbatim>\<open>null\<close>; a TypeError when \<^verbatim>\<open>el\<close> is \<^verbatim>\<open>null\<close>.\<close>

definition getAttribute :: "element option \<Rightarrow> jsstring \<Rightarrow> jsstring option stmt" where
  "getAttribute el name =
     (case el of
        None \<Rightarrow> throw (TypeError MethodOfNull)
      | Some e \<Rightarrow> andThen (emit (GetAttribute name)) (\<lambda>_. ret (map_of (attrs e) name)))"

text \<open>
  \<^verbatim>\<open>JSON.parse(x)\<close> of a string or \<^verbatim>\<open>null\<close>: the argument is turned into a string first, and
  \<^verbatim>\<open>null\<close> becomes the text \<^verbatim>\<open>null\<close>. An object or array of the result is a new object of the
  heap.
\<close>

definition to_text :: "jsstring option \<Rightarrow> jsstring" where
  "to_text x = (case x of None \<Rightarrow> js ''null'' | Some s \<Rightarrow> s)"

fun is_object :: "jsval \<Rightarrow> bool" where
  "is_object (JObject ps) = True"
| "is_object (JArray xs) = True"
| "is_object v = False"

definition reference :: "jsval \<Rightarrow> jsref stmt" where
  "reference v = (if is_object v then andThen (alloc (to_object v)) (\<lambda>a. ret (Ref a)) else ret (Prim v))"

definition JSON_parse_call :: "jsstring option \<Rightarrow> jsval stmt" where
  "JSON_parse_call x =
     andThen (emit (JSONParse (to_text x))) (\<lambda>_.
       case JSON_parse (to_text x) of
         None \<Rightarrow> throw SyntaxError
       | Some v \<Rightarrow> ret v)"

text \<open>\<^verbatim>\<open>x.k\<close>: a TypeError on \<^verbatim>\<open>null\<close> and \<^verbatim>\<open>undefined\<close>.\<close>

definition get_member :: "jsref \<Rightarrow> jsstring \<Rightarrow> jsval stmt" where
  "get_member x k = (\<lambda>w.
     case x of
       Prim v \<Rightarrow>
         if is_nullish v then (Inl (TypeError PropertyOfNull), w)
         else (Inr (get (to_object v) k), w)
     | Ref a \<Rightarrow>
         (case deref w a of
            None \<Rightarrow> (Inl (TypeError PropertyOfNull), w)
          | Some obj \<Rightarrow> (Inr (get obj k), w)))"

text \<open>\<^verbatim>\<open>delete x.k\<close>: changes the object in place; nothing to do on a primitive.\<close>

definition delete_member :: "jsref \<Rightarrow> jsstring \<Rightarrow> unit stmt" where
  "delete_member x k = (\<lambda>w.
     case x of
       Prim v \<Rightarrow>
         if is_nullish v then (Inl (TypeError PropertyOfNull), w) else (Inr (), w)
     | Ref a \<Rightarrow>
         (case deref w a of
            None \<Rightarrow> (Inl (TypeError PropertyOfNull), w)
          | Some obj \<Rightarrow> (Inr (), w\<lparr>heap := (heap w)[a := remove k obj]\<rparr>)))"

text \<open>The own enumerable properties of a source; \<^verbatim>\<open>null\<close> and \<^verbatim>\<open>undefined\<close> have none.\<close>

definition enumerable_of :: "jsref \<Rightarrow> (jsstring \<times> jsval) list stmt" where
  "enumerable_of x = (\<lambda>w.
     case x of
       Prim v \<Rightarrow> (Inr (own_enumerable (to_object v)), w)
     | Ref a \<Rightarrow>
         (case deref w a of
            None \<Rightarrow> (Inr [], w)
          | Some obj \<Rightarrow> (Inr (own_enumerable obj), w)))"

text \<open>
  \<^verbatim>\<open>Object.assign(target, ...sources)\<close>: writes to the target itself and returns it. A
  primitive target is wrapped in a new object first; \<^verbatim>\<open>null\<close> and \<^verbatim>\<open>undefined\<close> throw.
\<close>

definition Object_assign :: "jsref \<Rightarrow> (jsstring \<times> jsval) list list \<Rightarrow> nat stmt" where
  "Object_assign target sources = (\<lambda>w.
     case target of
       Prim v \<Rightarrow>
         if is_nullish v then (Inl (TypeError AssignToNull), w)
         else alloc (fold assign sources (to_object v)) w
     | Ref a \<Rightarrow>
         (case deref w a of
            None \<Rightarrow> (Inl (TypeError AssignToNull), w)
          | Some obj \<Rightarrow> (Inr a, w\<lparr>heap := (heap w)[a := fold assign sources obj]\<rparr>)))"

text \<open>\<^verbatim>\<open>now()\<close>: the next reading of the clock.\<close>

definition now_call :: "env \<Rightarrow> jsval stmt" where
  "now_call env = (\<lambda>w. call Now (Inr (JNumber (now env (count_list (trace w) Now)))) w)"

text \<open>
  \<^verbatim>\<open>createStore(reducer, state, enhancer)\<close> and the render call are the store library and the
  rendering boundary: each is the event of its call, with the address of the state object
  the store starts from.
\<close>

datatype store_handle = Store nat

definition createStore :: "nat \<Rightarrow> store_handle stmt" where
  "createStore a = andThen (emit (CreateStore a)) (\<lambda>_. ret (Store a))"

fun render :: "store_handle \<Rightarrow> unit stmt" where
  "render (Store a) = emit (Render a)"

section \<open>The explore entry point\<close>

text \<open>
  The object literal of the merge, lines 31 to 44 of \<^verbatim>\<open>explorev2/index.jsx\<close>, with the three
  values that are computed: the reading of the clock, the controls and the form data.
\<close>

definition initial_fields :: "jsval \<Rightarrow> jsval \<Rightarrow> jsval \<Rightarrow> (jsstring \<times> jsval) list" where
  "initial_fields t controls formData =
     [(js ''chartStatus'', JNull),
      (js ''chartUpdateEndTime'', JNull),
      (js ''chartUpdateStartTime'', t),
      (js ''dashboards'', JArray []),
      (js ''controls'', controls),
      (js ''latestQueryFormData'', formData),
      (js ''filterColumnOpts'', JArray []),
      (js ''isDatasourceMetaLoading'', JBool False),
      (js ''isStarred'', JBool False),
      (js ''queryResponse'', JNull),
      (js ''triggerQuery'', JBool True),
      (js ''triggerRender'', JBool False)]"

text \<open>The constants of the module once it has run.\<close>

record explore_module =
  exploreViewContainer :: "element option"
  bootstrapData :: jsref
  controls :: jsval
  bootstrappedState :: nat
  store :: store_handle

text \<open>
  The module body, lines 20 to 59, statement by statement, from the call of \<^verbatim>\<open>initJQueryAjaxCSRF\<close> on; the
  imports and the \<^verbatim>\<open>require\<close> calls before it load modules and are not modelled. \<open>payload\<close> is the decoded value and
  \<open>bootstrapData\<close> the variable that refers to it. The properties of the literal are
  evaluated in order, so \<^verbatim>\<open>now()\<close> is called before \<^verbatim>\<open>getFormDataFromControls\<close>.
\<close>

definition explore :: "env \<Rightarrow> document \<Rightarrow> explore_module stmt" where
  "explore env document =
     andThen (emit InitJQueryAjaxCSRF) (\<lambda>_.
     andThen (getElementById document (js ''js-explore-view-container'')) (\<lambda>container.
     andThen (getAttribute container (js ''data-bootstrap'')) (\<lambda>text.
     andThen (JSON_parse_call text) (\<lambda>payload.
     andThen (reference payload) (\<lambda>data.
     andThen (get_member data (js ''form_data'')) (\<lambda>form_data.
     andThen (call (GetControlsState payload form_data)
                (getControlsState env payload form_data)) (\<lambda>ctrls.
     andThen (delete_member data (js ''form_data'')) (\<lambda>_.
     andThen (now_call env) (\<lambda>t.
     andThen (call (GetFormDataFromControls ctrls)
                (getFormDataFromControls env ctrls)) (\<lambda>formData.
     andThen (Object_assign data [initial_fields t ctrls formData]) (\<lambda>state.
     andThen (createStore state) (\<lambda>st.
     andThen (render st) (\<lambda>_.
     ret \<lparr>exploreViewContainer = container, bootstrapData = data, controls = ctrls,
          bootstrappedState = state, store = st\<rparr>)))))))))))))"

section \<open>The SQL Lab entry point\<close>

record sqllab_module =
  appContainer :: "element option"
  sql_bootstrapData :: jsref
  state :: nat
  sql_store :: store_handle

text \<open>
  Lines 77 to 94. The arguments of
  \<^verbatim>\<open>Object.assign({}, getInitialState(bootstrapData.defaultDbId), bootstrapData)\<close>
  are evaluated from the left: the empty object is created before the property is read.
  The jQuery call that highlights the navigation bar is the event of its call.
\<close>

definition sqllab :: "env \<Rightarrow> document \<Rightarrow> sqllab_module stmt" where
  "sqllab env document =
     andThen (emit InitJQueryAjaxCSRF) (\<lambda>_.
     andThen (getElementById document (js ''app'')) (\<lambda>container.
     andThen (getAttribute container (js ''data-bootstrap'')) (\<lambda>text.
     andThen (JSON_parse_call text) (\<lambda>payload.
     andThen (reference payload) (\<lambda>data.
     andThen (alloc (to_object (JObject []))) (\<lambda>target.
     andThen (get_member data (js ''defaultDbId'')) (\<lambda>defaultDbId.
     andThen (call (GetInitialState defaultDbId) (getInitialState env defaultDbId)) (\<lambda>defaults.
     andThen (enumerable_of data) (\<lambda>fields.
     andThen (Object_assign (Ref target) [own_enumerable (to_object defaults), fields]) (\<lambda>merged.
     andThen (createStore merged) (\<lambda>st.
     andThen (emit NavbarHighlight) (\<lambda>_.
     andThen (render st) (\<lambda>_.
     ret \<lparr>appContainer = container, sql_bootstrapData = data, state = merged,
          sql_store = st\<rparr>)))))))))))))"

text \<open>The payload a page decodes to, when its anchor is there and the text is JSON.\<close>

definition decoded :: "document \<Rightarrow> jsstring \<Rightarrow> jsval option" where
  "decoded document ident =
     (case lookup_id document ident of
        None \<Rightarrow> None
      | Some el \<Rightarrow> JSON_parse (to_text (map_of (attrs el) (js ''data-bootstrap''))))"

text \<open>The own property of the object at an address, in the world a run ends in.\<close>

definition field :: "world \<Rightarrow> nat \<Rightarrow> jsstring \<Rightarrow> jsval option" where
  "field w a k = (case deref w a of None \<Rightarrow> None | Some obj \<Rightarrow> own_property obj k)"

section \<open>The derivation of controls and form data\<close>

text \<open>
  Modelled from the spec: \<^verbatim>\<open>getControlsState\<close> and \<^verbatim>\<open>getFormDataFromControls\<close> are imported
  from \<^verbatim>\<open>./stores/store\<close>, which is not among the sources, and so is the control registry.
  The spec calls them \<^verbatim>\<open>computeControls\<close> and \<^verbatim>\<open>computeFormData\<close>. A registry entry is a
  descriptor template: the type, the validators, the static default, and what the
  descriptor takes from the datasource metadata of the payload.
\<close>

record template =
  ctype :: jsval
  validators :: jsval
  default_value :: jsval
  metadata :: "jsval \<Rightarrow> (jsstring \<times> jsval) list"

type_synonym registry = "(jsstring \<times> template) list"

text \<open>
  Modelled from the spec: the descriptor of a control is seeded with the entry of the
  initial values for that control if there is one, else with the static default.
\<close>

definition descriptor :: "template \<Rightarrow> jsval \<Rightarrow> jsval option \<Rightarrow> jsval" where
  "descriptor t payload initial =
     JObject ([(js ''type'', ctype t),
               (js ''validators'', validators t),
               (js ''value'', (case initial of Some v \<Rightarrow> v | None \<Rightarrow> default_value t))]
              @ metadata t payload)"

text \<open>
  Modelled from the spec: \<^verbatim>\<open>computeControls(payload, initialValues)\<close> gives one descriptor
  for every control of the registry. A key of the initial values that is not a control of
  the registry is a \<^verbatim>\<open>ControlResolutionError\<close>.
\<close>

definition computeControls :: "registry \<Rightarrow> jsval \<Rightarrow> jsval \<Rightarrow> error + jsval" where
  "computeControls reg payload initialValues =
     (if list_all (\<lambda>k. k \<in> set (map fst reg))
           (map fst (own_enumerable (to_object initialValues)))
      then Inr (JObject (map (\<lambda>(name, t).
                  (name, descriptor t payload
                           (map_of (own_enumerable (to_object initialValues)) name))) reg))
      else Inl ControlResolutionError)"

text \<open>
  Modelled from the spec: \<^verbatim>\<open>computeFormData(controls)\<close> is the projection of every control
  to its current value.
\<close>

definition computeFormData :: "jsval \<Rightarrow> jsval" where
  "computeFormData ctrls =
     JObject (map (\<lambda>(name, d). (name, get (to_object d) (js ''value'')))
                (own_enumerable (to_object ctrls)))"

definition keys :: "jsval \<Rightarrow> jsstring list" where
  "keys v = map fst (own_enumerable (to_object v))"

text \<open>The collaborators of the spec over a registry, a clock and the SQL Lab defaults.\<close>

definition spec_env :: "registry \<Rightarrow> (nat \<Rightarrow> rat) \<Rightarrow> (jsval \<Rightarrow> error + jsval) \<Rightarrow> env" where
  "spec_env reg clock initial =
     \<lparr>getControlsState = computeControls reg,
      getFormDataFromControls = (\<lambda>c. Inr (computeFormData c)),
      getInitialState = initial,
      now = clock\<rparr>"

section \<open>Example pages\<close>

text \<open>
  A page with one element that has the id and the attribute, and one whose element lacks
  the attribute. The registry is the one of the end-to-end scenario of the specification:
  the control \<^verbatim>\<open>metric\<close> with default \<^verbatim>\<open>sum\<close>.
\<close>

definition page :: "jsstring \<Rightarrow> jsstring \<Rightarrow> document" where
  "page ident text = [\<lparr>attrs = [(js ''id'', ident), (js ''data-bootstrap'', text)]\<rparr>]"

definition bare_page :: "jsstring \<Rightarrow> document" where
  "bare_page ident = [\<lparr>attrs = [(js ''id'', ident)]\<rparr>]"

definition example_registry :: registry where
  "example_registry =
     [(js ''metric'',
       \<lparr>ctype = JString (js ''SelectControl''), validators = JArray [],
        default_value = JString (js ''sum''),
        metadata = (\<lambda>payload. [(js ''datasource'', get (to_object payload) (js ''datasource_id''))])\<rparr>)]"

definition example_defaults :: "jsval \<Rightarrow> error + jsval" where
  "example_defaults defaultDbId =
     Inr (JObject [(js ''defaultDbId'', defaultDbId), (js ''queries'', JObject []),
                   (js ''alerts'', JArray [])])"

definition example_env :: env where
  "example_env = spec_env example_registry (\<lambda>k. 1000 + of_nat k) example_defaults"

definition explore_text :: jsstring where
  \<open>explore_text = js ''{"datasource_id":1,"form_data":{"metric":"count"},"dashboards":[7],"controls":"stale","isStarred":true}''\<close>

definition explore_page :: document where
  "explore_page = page (js ''js-explore-view-container'') explore_text"

definition sqllab_text :: jsstring where
  \<open>sqllab_text = js ''{"defaultDbId":2,"queries":[1]}''\<close>

definition sqllab_page :: document where
  "sqllab_page = page (js ''app'') sqllab_text"

definition explore_payload :: jsval where
  "explore_payload =
     JObject [(js ''datasource_id'', JNumber 1),
              (js ''form_data'', JObject [(js ''metric'', JString (js ''count''))]),
              (js ''dashboards'', JArray [JNumber 7]),
              (js ''controls'', JString (js ''stale'')),
              (js ''isStarred'', JBool True)]"

definition other_text :: jsstring where
  \<open>other_text = js ''{"datasource_id":2,"form_data":{"metric":"count"},"standalone":true}''\<close>

definition other_payload :: jsval where
  "other_payload =
     JObject [(js ''datasource_id'', JNumber 2),
              (js ''form_data'', JObject [(js ''metric'', JString (js ''count''))]),
              (js ''standalone'', JBool True)]"

definition sqllab_payload :: jsval where
  "sqllab_payload = JObject [(js ''defaultDbId'', JNumber 2), (js ''queries'', JArray [JNumber 1])]"

definition broken_text :: jsstring where
  \<open>broken_text = js ''{"form_data":''\<close>

definition example_controls :: jsval where
  "example_controls =
     JObject [(js ''metric'',
               JObject [(js ''type'', JString (js ''SelectControl'')),
                        (js ''validators'', JArray []),
                        (js ''value'', JString (js ''count'')),
                        (js ''datasource'', JNumber 1)])]"

text \<open>The example collaborators with a \<^verbatim>\<open>getFormDataFromControls\<close> that throws.\<close>

definition failing_env :: env where
  "failing_env = example_env\<lparr>getFormDataFromControls := (\<lambda>c. Inl (Thrown JNull))\<rparr>"

definition explore_example :: "(error + explore_module) \<times> world" where
  "explore_example = explore example_env explore_page start"

definition sqllab_example :: "(error + sqllab_module) \<times> world" where
  "sqllab_example = sqllab example_env sqllab_page start"

section \<open>What a run does\<close>

text \<open>
  A run from the empty world, written out: where it can stop, with which error, and the
  heap and the trace it leaves behind in each case.
\<close>

lemmas stmt_defs = ret_def throw_def andThen_def emit_def call_def alloc_def deref_def
  getElementById_def getAttribute_def JSON_parse_call_def reference_def get_member_def
  delete_member_def enumerable_of_def Object_assign_def now_call_def createStore_def

lemma remove_primitive: "\<not> is_object p \<Longrightarrow> remove k (to_object p) = to_object p"
  by (cases p) (simp_all add: remove_def to_object_def)

lemma object_not_nullish: "is_object p \<Longrightarrow> \<not> is_nullish p"
  by (auto simp: is_nullish_def)

lemma explore_run:
  "explore env doc start =
     (case lookup_id doc (js ''js-explore-view-container'') of
        None \<Rightarrow>
          (Inl (TypeError MethodOfNull),
           \<lparr>heap = [],
            trace = [InitJQueryAjaxCSRF, GetElementById (js ''js-explore-view-container'')]\<rparr>)
      | Some el \<Rightarrow>
          (let text = to_text (map_of (attrs el) (js ''data-bootstrap''));
               pre = [InitJQueryAjaxCSRF, GetElementById (js ''js-explore-view-container''),
                      GetAttribute (js ''data-bootstrap''), JSONParse text]
           in case JSON_parse text of
                None \<Rightarrow> (Inl SyntaxError, \<lparr>heap = [], trace = pre\<rparr>)
              | Some p \<Rightarrow>
                  if is_nullish p then (Inl (TypeError PropertyOfNull), \<lparr>heap = [], trace = pre\<rparr>)
                  else
                    (let fd = get (to_object p) (js ''form_data'')
                     in case getControlsState env p fd of
                          Inl e \<Rightarrow>
                            (Inl e,
                             \<lparr>heap = (if is_object p then [to_object p] else []),
                              trace = pre @ [GetControlsState p fd]\<rparr>)
                        | Inr c \<Rightarrow>
                            (case getFormDataFromControls env c of
                               Inl e \<Rightarrow>
                                 (Inl e,
                                  \<lparr>heap = (if is_object p
                                           then [remove (js ''form_data'') (to_object p)] else []),
                                   trace = pre @ [GetControlsState p fd, Now,
                                                  GetFormDataFromControls c]\<rparr>)
                             | Inr f \<Rightarrow>
                                 (Inr \<lparr>exploreViewContainer = Some el,
                                       bootstrapData = (if is_object p then Ref 0 else Prim p),
                                       controls = c, bootstrappedState = 0, store = Store 0\<rparr>,
                                  \<lparr>heap = [assign (initial_fields (JNumber (now env 0)) c f)
                                             (remove (js ''form_data'') (to_object p))],
                                   trace = pre @ [GetControlsState p fd, Now,
                                                  GetFormDataFromControls c,
                                                  CreateStore 0, Render 0]\<rparr>)))))"
  by (simp add: explore_def stmt_defs start_def Let_def remove_primitive object_not_nullish
           split: option.split sum.split)

lemma sqllab_run:
  "sqllab env doc start =
     (case lookup_id doc (js ''app'') of
        None \<Rightarrow>
          (Inl (TypeError MethodOfNull),
           \<lparr>heap = [], trace = [InitJQueryAjaxCSRF, GetElementById (js ''app'')]\<rparr>)
      | Some el \<Rightarrow>
          (let text = to_text (map_of (attrs el) (js ''data-bootstrap''));
               pre = [InitJQueryAjaxCSRF, GetElementById (js ''app''),
                      GetAttribute (js ''data-bootstrap''), JSONParse text]
           in case JSON_parse text of
                None \<Rightarrow> (Inl SyntaxError, \<lparr>heap = [], trace = pre\<rparr>)
              | Some p \<Rightarrow>
                  (let h = (if is_object p then [to_object p] else []);
                       empty = \<lparr>exotic = JUndefined, props = []\<rparr>
                   in if is_nullish p
                      then (Inl (TypeError PropertyOfNull), \<lparr>heap = [empty], trace = pre\<rparr>)
                      else
                        (let d = get (to_object p) (js ''defaultDbId'')
                         in case getInitialState env d of
                              Inl e \<Rightarrow>
                                (Inl e, \<lparr>heap = h @ [empty], trace = pre @ [GetInitialState d]\<rparr>)
                            | Inr defaults \<Rightarrow>
                                (Inr \<lparr>appContainer = Some el,
                                      sql_bootstrapData = (if is_object p then Ref 0 else Prim p),
                                      state = length h, sql_store = Store (length h)\<rparr>,
                                 \<lparr>heap = h @ [assign (own_enumerable (to_object p))
                                                 (assign (own_enumerable (to_object defaults))
                                                    empty)],
                                  trace = pre @ [GetInitialState d, CreateStore (length h),
                                                 NavbarHighlight, Render (length h)]\<rparr>)))))"
  by (simp add: sqllab_def stmt_defs start_def Let_def object_not_nullish to_object_def
           split: option.split sum.split)

lemma map_of_rev_distinct: "distinct (map fst xs) \<Longrightarrow> map_of (rev xs) = map_of xs"
proof (induction xs)
  case Nil
  then show ?case by simp
next
  case (Cons x xs)
  obtain k v where x: "x = (k, v)" by (cases x)
  from Cons.prems have "map_of xs k = None"
    by (simp add: x map_of_eq_None_iff)
  with Cons show ?case
    by (auto simp: x map_add_def fun_eq_iff split: option.split)
qed

lemma exotic_put: "exotic (put kv obj) = exotic obj"
  by (simp add: put_def)

lemma exotic_assign: "exotic (assign src obj) = exotic obj"
  unfolding assign_def by (induction src arbitrary: obj) (simp_all add: exotic_put)

lemma props_put:
  "map_of (props (put (k', v) obj)) k =
     (if k' = js ''__proto__'' \<and> map_of (props obj) k' = None then map_of (props obj) k
      else if k = k' then Some v else map_of (props obj) k)"
  by (auto simp: put_def update_conv')

lemma props_assign:
  "map_of (props (assign src obj)) k =
     (if k = js ''__proto__'' \<and> map_of (props obj) k = None then None
      else (map_of (props obj) ++ map_of (rev src)) k)"
  unfolding assign_def
proof (induction src arbitrary: obj)
  case Nil
  then show ?case by auto
next
  case (Cons x src)
  obtain k' v where x: "x = (k', v)" by (cases x)
  show ?case
    by (auto simp: x Cons.IH props_put map_add_def split: option.split)
qed

lemma digits_are_digits: "list_all is_digit (digits n)"
proof (induction n rule: digits.induct)
  case (1 n)
  show ?case
  proof (cases "n < 10")
    case True
    then show ?thesis by (subst digits.simps) (simp add: is_digit_def)
  next
    case False
    have "n mod 10 \<le> 9" by arith
    moreover from False 1 have "list_all is_digit (digits (n div 10))" by simp
    ultimately show ?thesis using False
      by (subst digits.simps) (simp add: is_digit_def)
  qed
qed

lemma indexed_keys: "map_of (indexed xs) k = Some v \<Longrightarrow> list_all is_digit k"
proof -
  assume "map_of (indexed xs) k = Some v"
  then have "k \<in> set (map digits [0..<length xs])"
    unfolding indexed_def by (meson map_of_SomeD set_zip_leftD)
  then show ?thesis by (auto simp: digits_are_digits)
qed

lemma indexed_name: "\<not> list_all is_digit k \<Longrightarrow> map_of (indexed xs) k = None"
  using indexed_keys by (cases "map_of (indexed xs) k") auto

lemma field_single: "field \<lparr>heap = [obj], trace = t\<rparr> 0 k = own_property obj k"
  by (simp add: field_def deref_def)

lemma initial_fields_distinct: "distinct (map fst (initial_fields t c f))"
  by (simp add: initial_fields_def js_def)

lemma initial_fields_rev: "map_of (rev (initial_fields t c f)) = map_of (initial_fields t c f)"
  by (rule map_of_rev_distinct) (rule initial_fields_distinct)

lemma form_data_is_a_name:
  "\<not> list_all is_digit (js ''form_data'')"
  "js ''form_data'' \<noteq> js ''length''"
  "js ''form_data'' \<noteq> js ''__proto__''"
  by (simp_all add: js_def is_digit_def)

lemma initial_fields_form_data: "map_of (initial_fields t c f) (js ''form_data'') = None"
  by (simp add: initial_fields_def js_def)

lemma intrinsic_form_data: "intrinsic v (js ''form_data'') = None"
  using form_data_is_a_name by (simp add: intrinsic_def indexed_name)

lemma merged_props:
  "map_of (props (assign (initial_fields t c f) (remove (js ''form_data'') obj))) k =
     (case map_of (initial_fields t c f) k of
        Some v \<Rightarrow> Some v
      | None \<Rightarrow> if k = js ''form_data'' then None else map_of (props obj) k)"
proof (cases "map_of (initial_fields t c f) k")
  case (Some v)
  then have "k \<noteq> js ''__proto__''"
    by (auto simp: initial_fields_def js_def split: if_splits)
  with Some show ?thesis
    by (simp add: props_assign initial_fields_rev map_add_def)
next
  case None
  then show ?thesis
    by (auto simp: props_assign initial_fields_rev map_add_def remove_def delete_conv')
qed

lemma merged_property:
  "own_property (assign (initial_fields t c f) (remove (js ''form_data'') (to_object p))) k =
     (case map_of (initial_fields t c f) k of
        Some v \<Rightarrow> Some v
      | None \<Rightarrow> if k = js ''form_data'' then None else own_property (to_object p) k)"
proof -
  have "exotic (assign (initial_fields t c f) (remove (js ''form_data'') (to_object p))) =
        exotic (to_object p)"
    by (simp add: exotic_assign remove_def)
  then show ?thesis
    by (simp add: own_property_def merged_props intrinsic_form_data split: option.split)
qed

lemma explore_success:
  assumes "explore env doc start = (Inr m, w)"
  obtains el p f where
    "lookup_id doc (js ''js-explore-view-container'') = Some el"
    "decoded doc (js ''js-explore-view-container'') = Some p"
    "\<not> is_nullish p"
    "getControlsState env p (get (to_object p) (js ''form_data'')) = Inr (controls m)"
    "getFormDataFromControls env (controls m) = Inr f"
    "bootstrapData m = (if is_object p then Ref 0 else Prim p)"
    "bootstrappedState m = 0"
    "store m = Store 0"
    "heap w = [assign (initial_fields (JNumber (now env 0)) (controls m) f)
                 (remove (js ''form_data'') (to_object p))]"
    "trace w = [InitJQueryAjaxCSRF, GetElementById (js ''js-explore-view-container''),
                GetAttribute (js ''data-bootstrap''),
                JSONParse (to_text (map_of (attrs el) (js ''data-bootstrap''))),
                GetControlsState p (get (to_object p) (js ''form_data'')), Now,
                GetFormDataFromControls (controls m), CreateStore 0, Render 0]"
  using assms unfolding explore_run decoded_def
  by (auto simp: Let_def split: option.splits sum.splits if_splits)

lemma sqllab_success:
  assumes "sqllab env doc start = (Inr m, w)"
  obtains el p d where
    "lookup_id doc (js ''app'') = Some el"
    "decoded doc (js ''app'') = Some p"
    "\<not> is_nullish p"
    "getInitialState env (get (to_object p) (js ''defaultDbId'')) = Inr d"
    "sql_bootstrapData m = (if is_object p then Ref 0 else Prim p)"
    "state m = (if is_object p then 1 else 0)"
    "sql_store m = Store (state m)"
    "heap w = (if is_object p then [to_object p] else []) @
              [assign (own_enumerable (to_object p))
                 (assign (own_enumerable (to_object d)) \<lparr>exotic = JUndefined, props = []\<rparr>)]"
    "trace w = [InitJQueryAjaxCSRF, GetElementById (js ''app''),
                GetAttribute (js ''data-bootstrap''),
                JSONParse (to_text (map_of (attrs el) (js ''data-bootstrap''))),
                GetInitialState (get (to_object p) (js ''defaultDbId'')),
                CreateStore (state m), NavbarHighlight, Render (state m)]"
  using assms unfolding sqllab_run decoded_def
  by (auto simp: Let_def split: option.splits sum.splits if_splits)

lemma field_heap: "heap w = h @ [obj] \<Longrightarrow> field w (length h) k = own_property obj k"
  by (simp add: field_def deref_def)

lemma intrinsic_ordinary: "intrinsic JUndefined k = None"
  by (simp add: intrinsic_def indexed_def)

lemma sqllab_property:
  "k \<noteq> js ''__proto__'' \<Longrightarrow>
   own_property (assign ps (assign ds \<lparr>exotic = JUndefined, props = []\<rparr>)) k =
     (case map_of (rev ps) k of Some v \<Rightarrow> Some v | None \<Rightarrow> map_of (rev ds) k)"
  by (simp add: own_property_def props_assign exotic_assign intrinsic_ordinary map_add_def
        split: option.split)

lemma literal_wins:
  assumes "(k, v) \<in> set (initial_fields t c f)"
  shows "own_property (assign (initial_fields t c f) (remove (js ''form_data'') (to_object p))) k
           = Some v"
  using map_of_is_SomeI [OF initial_fields_distinct assms] by (simp add: merged_property)

text \<open>The value of the literal under each of its keys.\<close>

lemma literal_values:
  "map_of (initial_fields t c f) (js ''chartStatus'') = Some JNull"
  "map_of (initial_fields t c f) (js ''chartUpdateEndTime'') = Some JNull"
  "map_of (initial_fields t c f) (js ''chartUpdateStartTime'') = Some t"
  "map_of (initial_fields t c f) (js ''dashboards'') = Some (JArray [])"
  "map_of (initial_fields t c f) (js ''controls'') = Some c"
  "map_of (initial_fields t c f) (js ''latestQueryFormData'') = Some f"
  "map_of (initial_fields t c f) (js ''filterColumnOpts'') = Some (JArray [])"
  "map_of (initial_fields t c f) (js ''isDatasourceMetaLoading'') = Some (JBool False)"
  "map_of (initial_fields t c f) (js ''isStarred'') = Some (JBool False)"
  "map_of (initial_fields t c f) (js ''queryResponse'') = Some JNull"
  "map_of (initial_fields t c f) (js ''triggerQuery'') = Some (JBool True)"
  "map_of (initial_fields t c f) (js ''triggerRender'') = Some (JBool False)"
  by (simp_all add: initial_fields_def js_def)

text \<open>The first two events of every run, and the text \<^verbatim>\<open>null\<close>.\<close>

lemma explore_trace:
  "\<exists>rest. trace (snd (explore env doc start)) =
            InitJQueryAjaxCSRF # GetElementById (js ''js-explore-view-container'') # rest \<and>
          InitJQueryAjaxCSRF \<notin> set rest"
  unfolding explore_run by (simp add: Let_def split: option.split sum.split)

lemma sqllab_trace:
  "\<exists>rest. trace (snd (sqllab env doc start)) =
            InitJQueryAjaxCSRF # GetElementById (js ''app'') # rest \<and>
          InitJQueryAjaxCSRF \<notin> set rest"
  unfolding sqllab_run by (simp add: Let_def split: option.split sum.split)

lemma first_once:
  assumes "t = a # b # rest" and "a \<notin> set rest" and "a \<noteq> b"
  shows "take 2 t = [a, b] \<and> count_list t a = 1"
  using assms by (simp add: numeral_2_eq_2 count_list_0_iff)

lemma parse_null: "JSON_parse (js ''null'') = Some JNull"
  by code_simp

section \<open>Controls and form data\<close>

lemma enumerable_JObject: "own_enumerable (to_object (JObject ps)) = ps"
  by (simp add: own_enumerable_def to_object_def indexed_def)

lemma keys_computeFormData: "keys (computeFormData c) = keys c"
  by (simp add: keys_def computeFormData_def enumerable_JObject case_prod_unfold comp_def)

lemma keys_computeControls: "computeControls reg payload v = Inr c \<Longrightarrow> keys c = map fst reg"
  by (auto simp: keys_def computeControls_def enumerable_JObject case_prod_unfold comp_def
        split: if_splits)

lemma map_of_map_values:
  "map_of (map (\<lambda>(k, d). (k, g d)) xs) name = map_option g (map_of xs name)"
  by (induction xs) auto

lemma value_computeFormData:
  "map_of (own_enumerable (to_object (computeFormData c))) name =
     map_option (\<lambda>d. get (to_object d) (js ''value''))
       (map_of (own_enumerable (to_object c)) name)"
  by (simp add: computeFormData_def enumerable_JObject map_of_map_values)

lemma descriptor_value:
  "get (to_object (descriptor t payload i)) (js ''value'') =
     (case i of Some v \<Rightarrow> v | None \<Rightarrow> default_value t)"
  by (simp add: descriptor_def get_def own_property_def to_object_def js_def)

lemma formData_of_controls:
  "map_sum id computeFormData (computeControls reg payload v) =
     (if list_all (\<lambda>k. k \<in> set (map fst reg)) (map fst (own_enumerable (to_object v)))
      then Inr (JObject (map (\<lambda>(name, t). (name,
                  (case map_of (own_enumerable (to_object v)) name of
                     Some x \<Rightarrow> x | None \<Rightarrow> default_value t))) reg))
      else Inl ControlResolutionError)"
  by (simp add: computeControls_def computeFormData_def enumerable_JObject
        descriptor_value case_prod_unfold comp_def)

section \<open>The example runs\<close>

text \<open>The two example pages run to the end; the texts decode to the payloads named above.\<close>

lemma explore_example_ok:
  "explore example_env explore_page start = (Inr (projr (fst explore_example)), snd explore_example)"
  by code_simp

lemma sqllab_example_ok:
  "sqllab example_env sqllab_page start = (Inr (projr (fst sqllab_example)), snd sqllab_example)"
  by code_simp

lemma explore_decoded:
  "decoded explore_page (js ''js-explore-view-container'') = Some explore_payload"
  by code_simp

lemma sqllab_decoded: "decoded sqllab_page (js ''app'') = Some sqllab_payload"
  by code_simp

lemma other_decoded: "JSON_parse other_text = Some other_payload"
  by code_simp

lemma explore_text_decoded: "JSON_parse explore_text = Some explore_payload"
  by code_simp

lemma broken_text_rejected: "JSON_parse broken_text = None"
  by code_simp

lemma example_formData:
  "getFormDataFromControls example_env c = Inr (computeFormData c)"
  by (simp add: example_env_def spec_env_def)

lemma example_initial: "getInitialState example_env d = example_defaults d"
  by (simp add: example_env_def spec_env_def)


lemma example_controls_ok:
  "getControlsState example_env explore_payload
     (get (to_object explore_payload) (js ''form_data'')) = Inr example_controls"
  by code_simp

lemma example_clock: "now example_env 0 = 1000"
  by (simp add: example_env_def spec_env_def)

section \<open>The claims\<close>

subsection \<open>Precedence of the merge\<close>

text \<open>
  C1, as amended. The claim puts the payload above the static defaults in both entry
  points. The explore entry point merges the other way round: the payload, with
  \<^verbatim>\<open>form_data\<close> deleted, is the target of \<^verbatim>\<open>Object.assign\<close> and the object literal is its only
  source, so every key of the literal, a static default as much as a computed field, ends
  with the value of the literal, and every other key of the payload keeps its value. The
  SQL Lab entry point has no computed field and deletes nothing: the result of
  \<^verbatim>\<open>getInitialState\<close> is copied first and the payload second, so there a payload field does
  override a default. A source is read as \<^verbatim>\<open>Object.assign\<close> does, in order, so the entry
  that counts for a key is its last; the key \<^verbatim>\<open>__proto__\<close> is left out, since assigning to
  it creates no property.
\<close>

theorem merge_precedence:
  "(explore env doc start = (Inr m, w) \<longrightarrow>
    decoded doc (js ''js-explore-view-container'') = Some p \<longrightarrow>
    getFormDataFromControls env (controls m) = Inr f \<longrightarrow>
      field w (bootstrappedState m) k =
        (case map_of (initial_fields (JNumber (now env 0)) (controls m) f) k of
           Some v \<Rightarrow> Some v
         | None \<Rightarrow> if k = js ''form_data'' then None else own_property (to_object p) k))
   \<and>
   (sqllab env doc' start = (Inr m', w') \<longrightarrow>
    decoded doc' (js ''app'') = Some p' \<longrightarrow>
    getInitialState env (get (to_object p') (js ''defaultDbId'')) = Inr d \<longrightarrow>
    k' \<noteq> js ''__proto__'' \<longrightarrow>
      field w' (state m') k' =
        (case map_of (rev (own_enumerable (to_object p'))) k' of
           Some v \<Rightarrow> Some v
         | None \<Rightarrow> map_of (rev (own_enumerable (to_object d))) k'))"
proof (intro conjI impI)
  assume run: "explore env doc start = (Inr m, w)"
    and p: "decoded doc (js ''js-explore-view-container'') = Some p"
    and f: "getFormDataFromControls env (controls m) = Inr f"
  from run p f have "bootstrappedState m = 0"
    and "heap w = [] @ [assign (initial_fields (JNumber (now env 0)) (controls m) f)
                    (remove (js ''form_data'') (to_object p))]"
    by (auto elim!: explore_success)
  then show "field w (bootstrappedState m) k =
        (case map_of (initial_fields (JNumber (now env 0)) (controls m) f) k of
           Some v \<Rightarrow> Some v
         | None \<Rightarrow> if k = js ''form_data'' then None else own_property (to_object p) k)"
    using field_heap [of w "[]"] by (simp add: merged_property)
next
  assume run: "sqllab env doc' start = (Inr m', w')"
    and p: "decoded doc' (js ''app'') = Some p'"
    and d: "getInitialState env (get (to_object p') (js ''defaultDbId'')) = Inr d"
    and k: "k' \<noteq> js ''__proto__''"
  from run p d have "state m' = length (if is_object p' then [to_object p'] else [])"
    and "heap w' = (if is_object p' then [to_object p'] else []) @
              [assign (own_enumerable (to_object p'))
                 (assign (own_enumerable (to_object d)) \<lparr>exotic = JUndefined, props = []\<rparr>)]"
    by (auto elim!: sqllab_success)
  then show "field w' (state m') k' =
        (case map_of (rev (own_enumerable (to_object p'))) k' of
           Some v \<Rightarrow> Some v
         | None \<Rightarrow> map_of (rev (own_enumerable (to_object d))) k')"
    using field_heap k by (simp add: sqllab_property)
qed


text \<open>
  The theorem at the example pages: the payload of the explore page says \<^verbatim>\<open>isStarred: true\<close>
  and the merged state says \<^verbatim>\<open>false\<close>; the payload of the SQL Lab page overrides the
  \<^verbatim>\<open>queries\<close> of the defaults.
\<close>

theorem merge_precedence_witness:
  "explore example_env explore_page start = (Inr (projr (fst explore_example)), snd explore_example) \<and>
   decoded explore_page (js ''js-explore-view-container'') = Some explore_payload \<and>
   field (snd explore_example) (bootstrappedState (projr (fst explore_example)))
     (js ''isStarred'') = Some (JBool False) \<and>
   sqllab example_env sqllab_page start = (Inr (projr (fst sqllab_example)), snd sqllab_example) \<and>
   decoded sqllab_page (js ''app'') = Some sqllab_payload \<and>
   js ''queries'' \<noteq> js ''__proto__'' \<and>
   field (snd sqllab_example) (state (projr (fst sqllab_example))) (js ''queries'') =
     Some (JArray [JNumber 1])"
proof -
  have k: "js ''queries'' \<noteq> js ''__proto__''"
    by (simp add: js_def)
  have d: "getInitialState example_env (get (to_object sqllab_payload) (js ''defaultDbId'')) =
      Inr (JObject [(js ''defaultDbId'', get (to_object sqllab_payload) (js ''defaultDbId'')),
                    (js ''queries'', JObject []), (js ''alerts'', JArray [])])"
    by (simp add: example_initial example_defaults_def)
  note inst = merge_precedence [of example_env explore_page "projr (fst explore_example)"
      "snd explore_example" explore_payload
      "computeFormData (controls (projr (fst explore_example)))" "js ''isStarred''"
      sqllab_page "projr (fst sqllab_example)" "snd sqllab_example" sqllab_payload _
      "js ''queries''"]
  from inst have "field (snd explore_example) (bootstrappedState (projr (fst explore_example)))
     (js ''isStarred'') = Some (JBool False)"
    using explore_example_ok explore_decoded example_formData
    by (simp add: initial_fields_def js_def)
  moreover from inst have "field (snd sqllab_example) (state (projr (fst sqllab_example)))
      (js ''queries'') = Some (JArray [JNumber 1])"
    using sqllab_example_ok sqllab_decoded d k
    by (simp add: sqllab_payload_def enumerable_JObject js_def)
  ultimately show ?thesis
    using explore_example_ok explore_decoded sqllab_example_ok sqllab_decoded k by simp
qed


text \<open>
  The claim as written fails at the example page: \<^verbatim>\<open>dashboards\<close> is a key of the payload,
  with value \<^verbatim>\<open>[7]\<close>, and a key of the static defaults, and the merged state holds the
  default, the empty array.
\<close>

theorem merge_precedence_counterexample:
  "decoded explore_page (js ''js-explore-view-container'') = Some explore_payload \<and>
   own_property (to_object explore_payload) (js ''dashboards'') = Some (JArray [JNumber 7]) \<and>
   map_of (initial_fields JNull JNull JNull) (js ''dashboards'') = Some (JArray []) \<and>
   fst explore_example = Inr (projr (fst explore_example)) \<and>
   field (snd explore_example) (bootstrappedState (projr (fst explore_example)))
     (js ''dashboards'') = Some (JArray [])"
  by code_simp


subsection \<open>Reserved keys\<close>

text \<open>
  C2. In the explore entry point, whatever the payload holds under a reserved key, the
  merged state holds the computed or default value there: the computed controls under
  \<^verbatim>\<open>controls\<close>, the derived form data under \<^verbatim>\<open>latestQueryFormData\<close>, the reading of the clock
  under \<^verbatim>\<open>chartUpdateStartTime\<close>, \<^verbatim>\<open>null\<close> under \<^verbatim>\<open>chartStatus\<close>, \<^verbatim>\<open>chartUpdateEndTime\<close> and
  \<^verbatim>\<open>queryResponse\<close>, the empty array under \<^verbatim>\<open>dashboards\<close> and \<^verbatim>\<open>filterColumnOpts\<close>, \<^verbatim>\<open>false\<close>
  under \<^verbatim>\<open>isDatasourceMetaLoading\<close>, \<^verbatim>\<open>isStarred\<close> and \<^verbatim>\<open>triggerRender\<close>, and \<^verbatim>\<open>true\<close> under
  \<^verbatim>\<open>triggerQuery\<close>. Nothing is thrown for it: the run succeeds for every payload that is
  not \<^verbatim>\<open>null\<close>, as long as the two collaborators return.
\<close>

theorem reserved_keys_shadowed:
  assumes "decoded doc (js ''js-explore-view-container'') = Some p"
    and "\<not> is_nullish p"
    and "getControlsState env p (get (to_object p) (js ''form_data'')) = Inr c"
    and "getFormDataFromControls env c = Inr f"
  shows "(case explore env doc start of
            (Inl e, w) \<Rightarrow> False
          | (Inr m, w) \<Rightarrow>
              field w (bootstrappedState m) (js ''chartStatus'') = Some JNull \<and>
              field w (bootstrappedState m) (js ''chartUpdateEndTime'') = Some JNull \<and>
              field w (bootstrappedState m) (js ''chartUpdateStartTime'') = Some (JNumber (now env 0)) \<and>
              field w (bootstrappedState m) (js ''dashboards'') = Some (JArray []) \<and>
              field w (bootstrappedState m) (js ''controls'') = Some c \<and>
              field w (bootstrappedState m) (js ''latestQueryFormData'') = Some f \<and>
              field w (bootstrappedState m) (js ''filterColumnOpts'') = Some (JArray []) \<and>
              field w (bootstrappedState m) (js ''isDatasourceMetaLoading'') = Some (JBool False) \<and>
              field w (bootstrappedState m) (js ''isStarred'') = Some (JBool False) \<and>
              field w (bootstrappedState m) (js ''queryResponse'') = Some JNull \<and>
              field w (bootstrappedState m) (js ''triggerQuery'') = Some (JBool True) \<and>
              field w (bootstrappedState m) (js ''triggerRender'') = Some (JBool False))"
proof -
  from assms obtain el where
    "lookup_id doc (js ''js-explore-view-container'') = Some el"
    "JSON_parse (to_text (map_of (attrs el) (js ''data-bootstrap''))) = Some p"
    by (auto simp: decoded_def split: option.splits)
  with assms show ?thesis
    unfolding explore_run
    by (simp add: Let_def field_single merged_property literal_values)
qed

text \<open>
  The payload of the example page holds \<^verbatim>\<open>"stale"\<close> under \<^verbatim>\<open>controls\<close>, \<^verbatim>\<open>true\<close> under
  \<^verbatim>\<open>isStarred\<close> and \<^verbatim>\<open>[7]\<close> under \<^verbatim>\<open>dashboards\<close>; the run succeeds, and the state holds the
  computed controls, \<^verbatim>\<open>false\<close> and the empty array there.
\<close>

theorem reserved_keys_shadowed_witness:
  "decoded explore_page (js ''js-explore-view-container'') = Some explore_payload \<and>
   \<not> is_nullish explore_payload \<and>
   getControlsState example_env explore_payload
     (get (to_object explore_payload) (js ''form_data'')) = Inr example_controls \<and>
   getFormDataFromControls example_env example_controls =
     Inr (computeFormData example_controls) \<and>
   own_property (to_object explore_payload) (js ''controls'') = Some (JString (js ''stale'')) \<and>
   own_property (to_object explore_payload) (js ''isStarred'') = Some (JBool True) \<and>
   own_property (to_object explore_payload) (js ''dashboards'') = Some (JArray [JNumber 7]) \<and>
   (case explore example_env explore_page start of
      (Inl e, w) \<Rightarrow> False
    | (Inr m, w) \<Rightarrow>
        field w (bootstrappedState m) (js ''chartStatus'') = Some JNull \<and>
        field w (bootstrappedState m) (js ''chartUpdateEndTime'') = Some JNull \<and>
        field w (bootstrappedState m) (js ''chartUpdateStartTime'') = Some (JNumber 1000) \<and>
        field w (bootstrappedState m) (js ''dashboards'') = Some (JArray []) \<and>
        field w (bootstrappedState m) (js ''controls'') = Some example_controls \<and>
        field w (bootstrappedState m) (js ''latestQueryFormData'') = Some (computeFormData example_controls) \<and>
        field w (bootstrappedState m) (js ''filterColumnOpts'') = Some (JArray []) \<and>
        field w (bootstrappedState m) (js ''isDatasourceMetaLoading'') = Some (JBool False) \<and>
        field w (bootstrappedState m) (js ''isStarred'') = Some (JBool False) \<and>
        field w (bootstrappedState m) (js ''queryResponse'') = Some JNull \<and>
        field w (bootstrappedState m) (js ''triggerQuery'') = Some (JBool True) \<and>
        field w (bootstrappedState m) (js ''triggerRender'') = Some (JBool False))"
proof -
  have n: "\<not> is_nullish explore_payload"
    by (simp add: is_nullish_def explore_payload_def)
  have p: "own_property (to_object explore_payload) (js ''controls'') = Some (JString (js ''stale''))"
    "own_property (to_object explore_payload) (js ''isStarred'') = Some (JBool True)"
    "own_property (to_object explore_payload) (js ''dashboards'') = Some (JArray [JNumber 7])"
    by (simp_all add: own_property_def to_object_def explore_payload_def js_def)
  show ?thesis
    using reserved_keys_shadowed [OF explore_decoded n example_controls_ok example_formData,
        unfolded example_clock]
      explore_decoded n example_controls_ok example_formData p
    by simp
qed

subsection \<open>Removal of the raw form data\<close>

text \<open>
  C3. After a run of the explore entry point that succeeds, the merged state has no own
  property \<^verbatim>\<open>form_data\<close>. The property is read and handed to \<^verbatim>\<open>getControlsState\<close> before it
  is deleted, and the state carries the form data that \<^verbatim>\<open>getFormDataFromControls\<close> derives
  from the controls under \<^verbatim>\<open>latestQueryFormData\<close>.
\<close>

theorem form_data_removed:
  "(explore env doc start = (Inr m, w) \<longrightarrow>
    decoded doc (js ''js-explore-view-container'') = Some p \<longrightarrow>
      field w (bootstrappedState m) (js ''form_data'') = None \<and>
      getControlsState env p (get (to_object p) (js ''form_data'')) = Inr (controls m) \<and>
      GetControlsState p (get (to_object p) (js ''form_data'')) \<in> set (trace w) \<and>
      (case getFormDataFromControls env (controls m) of
         Inl e \<Rightarrow> False
       | Inr f \<Rightarrow> field w (bootstrappedState m) (js ''latestQueryFormData'') = Some f))
   \<and>
   (decoded doc' (js ''js-explore-view-container'') = Some p' \<longrightarrow>
    is_object p' \<longrightarrow>
    getControlsState env' p' (get (to_object p') (js ''form_data'')) = Inr c \<longrightarrow>
    getFormDataFromControls env' c = Inl e' \<longrightarrow>
      fst (explore env' doc' start) = Inl e' \<and>
      heap (snd (explore env' doc' start)) = [remove (js ''form_data'') (to_object p')] \<and>
      own_property (remove (js ''form_data'') (to_object p')) (js ''form_data'') = None)"
proof (intro conjI impI)
  have lq: "map_of (initial_fields t c f) (js ''latestQueryFormData'') = Some f" for t c f
    by (simp add: initial_fields_def js_def)
  assume "explore env doc start = (Inr m, w)"
    and "decoded doc (js ''js-explore-view-container'') = Some p"
  then have "field w (bootstrappedState m) (js ''form_data'') = None \<and>
      getControlsState env p (get (to_object p) (js ''form_data'')) = Inr (controls m) \<and>
      GetControlsState p (get (to_object p) (js ''form_data'')) \<in> set (trace w) \<and>
      (case getFormDataFromControls env (controls m) of
         Inl e \<Rightarrow> False
       | Inr f \<Rightarrow> field w (bootstrappedState m) (js ''latestQueryFormData'') = Some f)"
    by (elim explore_success)
       (simp add: field_def deref_def merged_property initial_fields_form_data lq)
  then show "field w (bootstrappedState m) (js ''form_data'') = None"
    and "getControlsState env p (get (to_object p) (js ''form_data'')) = Inr (controls m)"
    and "GetControlsState p (get (to_object p) (js ''form_data'')) \<in> set (trace w)"
    and "(case getFormDataFromControls env (controls m) of
         Inl e \<Rightarrow> False
       | Inr f \<Rightarrow> field w (bootstrappedState m) (js ''latestQueryFormData'') = Some f)"
    by simp_all
next
  assume p: "decoded doc' (js ''js-explore-view-container'') = Some p'"
    and o: "is_object p'"
    and c: "getControlsState env' p' (get (to_object p') (js ''form_data'')) = Inr c"
    and e: "getFormDataFromControls env' c = Inl e'"
  from p obtain el where
    "lookup_id doc' (js ''js-explore-view-container'') = Some el"
    "JSON_parse (to_text (map_of (attrs el) (js ''data-bootstrap''))) = Some p'"
    by (auto simp: decoded_def split: option.splits)
  with o c e show "fst (explore env' doc' start) = Inl e'"
    and "heap (snd (explore env' doc' start)) = [remove (js ''form_data'') (to_object p')]"
    unfolding explore_run by (simp_all add: Let_def object_not_nullish)
  show "own_property (remove (js ''form_data'') (to_object p')) (js ''form_data'') = None"
    by (simp add: own_property_def remove_def delete_conv' intrinsic_form_data)
qed


text \<open>
  The theorem at the example page, and at the same page with a
  \<^verbatim>\<open>getFormDataFromControls\<close> that throws: the run then stops between the deletion and the
  merge, and the payload object is without \<^verbatim>\<open>form_data\<close> and without the literal.
\<close>

theorem form_data_removed_witness:
  "explore example_env explore_page start = (Inr (projr (fst explore_example)), snd explore_example) \<and>
   decoded explore_page (js ''js-explore-view-container'') = Some explore_payload \<and>
   own_property (to_object explore_payload) (js ''form_data'') =
     Some (JObject [(js ''metric'', JString (js ''count''))]) \<and>
   field (snd explore_example) (bootstrappedState (projr (fst explore_example)))
     (js ''form_data'') = None \<and>
   field (snd explore_example) (bootstrappedState (projr (fst explore_example)))
     (js ''latestQueryFormData'') =
     Some (computeFormData (controls (projr (fst explore_example)))) \<and>
   is_object explore_payload \<and>
   getControlsState failing_env explore_payload
     (get (to_object explore_payload) (js ''form_data'')) = Inr example_controls \<and>
   getFormDataFromControls failing_env example_controls = Inl (Thrown JNull) \<and>
   fst (explore failing_env explore_page start) = Inl (Thrown JNull) \<and>
   heap (snd (explore failing_env explore_page start)) =
     [remove (js ''form_data'') (to_object explore_payload)]"
proof -
  have a: "own_property (to_object explore_payload) (js ''form_data'') =
     Some (JObject [(js ''metric'', JString (js ''count''))])"
    by (simp add: own_property_def to_object_def explore_payload_def js_def)
  have o: "is_object explore_payload"
    by (simp add: explore_payload_def)
  have c: "getControlsState failing_env explore_payload
     (get (to_object explore_payload) (js ''form_data'')) = Inr example_controls"
    using example_controls_ok by (simp add: failing_env_def)
  have e: "getFormDataFromControls failing_env example_controls = Inl (Thrown JNull)"
    by (simp add: failing_env_def)
  show ?thesis
    using form_data_removed [of example_env explore_page "projr (fst explore_example)"
        "snd explore_example" explore_payload explore_page explore_payload failing_env
        example_controls "Thrown JNull"]
      explore_example_ok explore_decoded a o c e
    by (simp add: example_formData)
qed

subsection \<open>A missing anchor\<close>

text \<open>
  C4. When no element of the document has the id of the anchor, \<^verbatim>\<open>getElementById\<close> gives
  \<^verbatim>\<open>null\<close> and the call of \<^verbatim>\<open>getAttribute\<close> on it throws (the TypeError that the specification
  names \<^verbatim>\<open>MissingAnchorError\<close>). The run ends there, in both entry points: the heap is
  empty, and the trace has neither a \<open>CreateStore\<close> nor a \<open>Render\<close>.
\<close>

theorem missing_anchor_aborts:
  "(lookup_id doc (js ''js-explore-view-container'') = None \<longrightarrow>
      explore env doc start =
        (Inl (TypeError MethodOfNull),
         \<lparr>heap = [],
          trace = [InitJQueryAjaxCSRF, GetElementById (js ''js-explore-view-container'')]\<rparr>))
   \<and>
   (lookup_id doc' (js ''app'') = None \<longrightarrow>
      sqllab env doc' start =
        (Inl (TypeError MethodOfNull),
         \<lparr>heap = [], trace = [InitJQueryAjaxCSRF, GetElementById (js ''app'')]\<rparr>))"
  by (simp add: explore_run sqllab_run)

text \<open>Each example page lacks the anchor of the other entry point.\<close>

theorem missing_anchor_aborts_witness:
  "lookup_id sqllab_page (js ''js-explore-view-container'') = None \<and>
   explore example_env sqllab_page start =
     (Inl (TypeError MethodOfNull),
      \<lparr>heap = [],
       trace = [InitJQueryAjaxCSRF, GetElementById (js ''js-explore-view-container'')]\<rparr>) \<and>
   lookup_id explore_page (js ''app'') = None \<and>
   sqllab example_env explore_page start =
     (Inl (TypeError MethodOfNull),
      \<lparr>heap = [], trace = [InitJQueryAjaxCSRF, GetElementById (js ''app'')]\<rparr>)"
proof -
  have a: "lookup_id sqllab_page (js ''js-explore-view-container'') = None"
    by (simp add: lookup_id_def sqllab_page_def page_def js_def)
  have b: "lookup_id explore_page (js ''app'') = None"
    by (simp add: lookup_id_def explore_page_def page_def js_def)
  show ?thesis
    using missing_anchor_aborts [of sqllab_page example_env explore_page] a b by simp
qed

subsection \<open>The timestamp\<close>

text \<open>
  C5. No run of the explore entry point calls \<^verbatim>\<open>now()\<close> more than once. A run that succeeds
  calls it exactly once, the store and the render call included, and the merged state
  holds the reading of that call under \<^verbatim>\<open>chartUpdateStartTime\<close>.
\<close>

theorem clock_read_once:
  "count_list (trace (snd (explore env doc start))) Now \<le> 1 \<and>
   (explore env doc start = (Inr m, w) \<longrightarrow>
      count_list (trace w) Now = 1 \<and>
      field w (bootstrappedState m) (js ''chartUpdateStartTime'') = Some (JNumber (now env 0)))"
proof (intro conjI impI)
  show "count_list (trace (snd (explore env doc start))) Now \<le> 1"
    unfolding explore_run by (simp add: Let_def split: option.split sum.split)
next
  assume run: "explore env doc start = (Inr m, w)"
  then show "count_list (trace w) Now = 1"
    by (elim explore_success) simp
next
  assume run: "explore env doc start = (Inr m, w)"
  have st: "map_of (initial_fields t c f) (js ''chartUpdateStartTime'') = Some t" for t c f
    by (simp add: initial_fields_def js_def)
  from run show "field w (bootstrappedState m) (js ''chartUpdateStartTime'') =
      Some (JNumber (now env 0))"
    by (elim explore_success) (simp add: field_def deref_def merged_property st)
qed


theorem clock_read_once_witness:
  "explore example_env explore_page start = (Inr (projr (fst explore_example)), snd explore_example) \<and>
   count_list (trace (snd explore_example)) Now = 1 \<and>
   field (snd explore_example) (bootstrappedState (projr (fst explore_example)))
     (js ''chartUpdateStartTime'') = Some (JNumber 1000)"
  using clock_read_once [of example_env explore_page "projr (fst explore_example)"
      "snd explore_example"] explore_example_ok
  by (simp add: example_clock)

subsection \<open>A malformed payload\<close>

text \<open>
  C6, as amended. A text that is not JSON makes \<^verbatim>\<open>JSON.parse\<close> throw its SyntaxError (the
  \<^verbatim>\<open>MalformedPayloadError\<close> of the specification), and the run ends there. An absent
  attribute does not: \<^verbatim>\<open>getAttribute\<close> gives \<^verbatim>\<open>null\<close>, \<^verbatim>\<open>JSON.parse(null)\<close> decodes the text
  \<^verbatim>\<open>null\<close> and returns \<^verbatim>\<open>null\<close>, so the extraction succeeds, and the run ends one statement
  later with the TypeError of the first property read on the payload. In both cases, and
  in both entry points, the error is not caught, no collaborator is called, and no store
  is created or rendered.
\<close>

theorem bad_payload_aborts:
  "(lookup_id doc1 (js ''js-explore-view-container'') = Some el1 \<longrightarrow>
    JSON_parse (to_text (map_of (attrs el1) (js ''data-bootstrap''))) = None \<longrightarrow>
      explore env doc1 start =
        (Inl SyntaxError,
         \<lparr>heap = [],
          trace = [InitJQueryAjaxCSRF, GetElementById (js ''js-explore-view-container''),
                   GetAttribute (js ''data-bootstrap''),
                   JSONParse (to_text (map_of (attrs el1) (js ''data-bootstrap'')))]\<rparr>))
   \<and>
   (lookup_id doc2 (js ''js-explore-view-container'') = Some el2 \<longrightarrow>
    map_of (attrs el2) (js ''data-bootstrap'') = None \<longrightarrow>
      decoded doc2 (js ''js-explore-view-container'') = Some JNull \<and>
      explore env doc2 start =
        (Inl (TypeError PropertyOfNull),
         \<lparr>heap = [],
          trace = [InitJQueryAjaxCSRF, GetElementById (js ''js-explore-view-container''),
                   GetAttribute (js ''data-bootstrap''), JSONParse (js ''null'')]\<rparr>))
   \<and>
   (lookup_id doc3 (js ''app'') = Some el3 \<longrightarrow>
    JSON_parse (to_text (map_of (attrs el3) (js ''data-bootstrap''))) = None \<longrightarrow>
      sqllab env doc3 start =
        (Inl SyntaxError,
         \<lparr>heap = [],
          trace = [InitJQueryAjaxCSRF, GetElementById (js ''app''),
                   GetAttribute (js ''data-bootstrap''),
                   JSONParse (to_text (map_of (attrs el3) (js ''data-bootstrap'')))]\<rparr>))
   \<and>
   (lookup_id doc4 (js ''app'') = Some el4 \<longrightarrow>
    map_of (attrs el4) (js ''data-bootstrap'') = None \<longrightarrow>
      decoded doc4 (js ''app'') = Some JNull \<and>
      sqllab env doc4 start =
        (Inl (TypeError PropertyOfNull),
         \<lparr>heap = [\<lparr>exotic = JUndefined, props = []\<rparr>],
          trace = [InitJQueryAjaxCSRF, GetElementById (js ''app''),
                   GetAttribute (js ''data-bootstrap''), JSONParse (js ''null'')]\<rparr>))"
  by (simp add: explore_run sqllab_run decoded_def Let_def to_text_def parse_null is_nullish_def)

text \<open>
  The theorem at a page whose attribute holds the broken text \<^verbatim>\<open>{"form_data":\<close> and at a
  page whose element has no attribute.
\<close>

theorem bad_payload_aborts_witness:
  "lookup_id (page (js ''js-explore-view-container'') broken_text)
     (js ''js-explore-view-container'') =
     Some \<lparr>attrs = [(js ''id'', js ''js-explore-view-container''),
                    (js ''data-bootstrap'', broken_text)]\<rparr> \<and>
   JSON_parse broken_text = None \<and>
   fst (explore example_env (page (js ''js-explore-view-container'') broken_text) start) =
     Inl SyntaxError \<and>
   lookup_id (bare_page (js ''js-explore-view-container'')) (js ''js-explore-view-container'') =
     Some \<lparr>attrs = [(js ''id'', js ''js-explore-view-container'')]\<rparr> \<and>
   fst (explore example_env (bare_page (js ''js-explore-view-container'')) start) =
     Inl (TypeError PropertyOfNull) \<and>
   lookup_id (page (js ''app'') broken_text) (js ''app'') =
     Some \<lparr>attrs = [(js ''id'', js ''app''), (js ''data-bootstrap'', broken_text)]\<rparr> \<and>
   fst (sqllab example_env (page (js ''app'') broken_text) start) = Inl SyntaxError \<and>
   lookup_id (bare_page (js ''app'')) (js ''app'') = Some \<lparr>attrs = [(js ''id'', js ''app'')]\<rparr> \<and>
   fst (sqllab example_env (bare_page (js ''app'')) start) = Inl (TypeError PropertyOfNull)"
proof -
  have l1: "lookup_id (page (js ''js-explore-view-container'') broken_text)
     (js ''js-explore-view-container'') =
     Some \<lparr>attrs = [(js ''id'', js ''js-explore-view-container''),
                    (js ''data-bootstrap'', broken_text)]\<rparr>"
    by (simp add: lookup_id_def page_def)
  have l2: "lookup_id (bare_page (js ''js-explore-view-container''))
     (js ''js-explore-view-container'') =
     Some \<lparr>attrs = [(js ''id'', js ''js-explore-view-container'')]\<rparr>"
    by (simp add: lookup_id_def bare_page_def)
  have l3: "lookup_id (page (js ''app'') broken_text) (js ''app'') =
     Some \<lparr>attrs = [(js ''id'', js ''app''), (js ''data-bootstrap'', broken_text)]\<rparr>"
    by (simp add: lookup_id_def page_def)
  have l4: "lookup_id (bare_page (js ''app'')) (js ''app'') =
     Some \<lparr>attrs = [(js ''id'', js ''app'')]\<rparr>"
    by (simp add: lookup_id_def bare_page_def)
  have ne: "js ''data-bootstrap'' \<noteq> js ''id''"
    by (simp add: js_def)
  show ?thesis
    using bad_payload_aborts [of "page (js ''js-explore-view-container'') broken_text"
        "\<lparr>attrs = [(js ''id'', js ''js-explore-view-container''),
                  (js ''data-bootstrap'', broken_text)]\<rparr>"
        example_env
        "bare_page (js ''js-explore-view-container'')"
        "\<lparr>attrs = [(js ''id'', js ''js-explore-view-container'')]\<rparr>"
        "page (js ''app'') broken_text"
        "\<lparr>attrs = [(js ''id'', js ''app''), (js ''data-bootstrap'', broken_text)]\<rparr>"
        "bare_page (js ''app'')"
        "\<lparr>attrs = [(js ''id'', js ''app'')]\<rparr>"]
      l1 l2 l3 l4 broken_text_rejected ne
    by (simp add: to_text_def)
qed

text \<open>
  The claim as written fails at the page whose element has no attribute: the payload is
  decoded, to \<^verbatim>\<open>null\<close>, and what ends the run is not the SyntaxError of the decoding.
\<close>

theorem absent_attribute_counterexample:
  "lookup_id (bare_page (js ''js-explore-view-container'')) (js ''js-explore-view-container'') =
     Some \<lparr>attrs = [(js ''id'', js ''js-explore-view-container'')]\<rparr> \<and>
   decoded (bare_page (js ''js-explore-view-container'')) (js ''js-explore-view-container'') =
     Some JNull \<and>
   fst (explore example_env (bare_page (js ''js-explore-view-container'')) start) =
     Inl (TypeError PropertyOfNull) \<and>
   fst (explore example_env (bare_page (js ''js-explore-view-container'')) start) \<noteq>
     Inl SyntaxError"
  by code_simp

subsection \<open>The keys of the form data\<close>

text \<open>
  C7. For every payload and initial values that \<^verbatim>\<open>computeControls\<close> accepts, the form data
  derived from the controls has the keys of the controls, which are the controls of the
  registry, in the same order, and the value under each name is the current value of that
  control.
\<close>

theorem form_data_keys:
  assumes "computeControls reg payload v = Inr c"
  shows "keys (computeFormData c) = keys c \<and>
         keys c = map fst reg \<and>
         map_of (own_enumerable (to_object (computeFormData c))) name =
           map_option (\<lambda>d. get (to_object d) (js ''value''))
             (map_of (own_enumerable (to_object c)) name)"
  using assms keys_computeControls
  by (simp add: keys_computeFormData value_computeFormData)


theorem form_data_keys_witness:
  "computeControls example_registry explore_payload
     (get (to_object explore_payload) (js ''form_data'')) = Inr example_controls \<and>
   keys (computeFormData example_controls) = [js ''metric''] \<and>
   keys example_controls = [js ''metric''] \<and>
   map_of (own_enumerable (to_object (computeFormData example_controls))) (js ''metric'') =
     Some (JString (js ''count''))"
proof -
  have c: "computeControls example_registry explore_payload
     (get (to_object explore_payload) (js ''form_data'')) = Inr example_controls"
    using example_controls_ok by (simp add: example_env_def spec_env_def)
  have r: "map fst example_registry = [js ''metric'']"
    by (simp add: example_registry_def)
  have v: "map_option (\<lambda>d. get (to_object d) (js ''value''))
             (map_of (own_enumerable (to_object example_controls)) (js ''metric'')) =
           Some (JString (js ''count''))"
    by code_simp
  show ?thesis
    using form_data_keys [OF c, of "js ''metric''"] c r v by simp
qed

subsection \<open>What the derivation depends on\<close>

text \<open>
  C8. Two payloads with the same \<^verbatim>\<open>form_data\<close> give the same form data, whatever else they
  hold: \<^verbatim>\<open>computeFormData(computeControls(payload, v))\<close> is a function of \<open>v\<close> and of the
  registry, also where \<^verbatim>\<open>computeControls\<close> rejects \<open>v\<close>.
\<close>

theorem derivation_ignores_unrelated_fields:
  assumes "get (to_object p1) (js ''form_data'') = get (to_object p2) (js ''form_data'')"
  shows "map_sum id computeFormData
           (computeControls reg p1 (get (to_object p1) (js ''form_data''))) =
         map_sum id computeFormData
           (computeControls reg p2 (get (to_object p2) (js ''form_data'')))"
  using assms by (simp add: formData_of_controls)


text \<open>
  The two example payloads agree on \<^verbatim>\<open>form_data\<close> and differ in the datasource, so their
  controls differ, and their form data do not.
\<close>

theorem derivation_ignores_unrelated_fields_witness:
  "JSON_parse explore_text = Some explore_payload \<and>
   JSON_parse other_text = Some other_payload \<and>
   get (to_object explore_payload) (js ''form_data'') =
     get (to_object other_payload) (js ''form_data'') \<and>
   computeControls example_registry explore_payload
     (get (to_object explore_payload) (js ''form_data'')) \<noteq>
   computeControls example_registry other_payload
     (get (to_object other_payload) (js ''form_data'')) \<and>
   map_sum id computeFormData
     (computeControls example_registry explore_payload
        (get (to_object explore_payload) (js ''form_data''))) =
   map_sum id computeFormData
     (computeControls example_registry other_payload
        (get (to_object other_payload) (js ''form_data'')))"
proof -
  have e: "get (to_object explore_payload) (js ''form_data'') =
     get (to_object other_payload) (js ''form_data'')"
    by (simp add: get_def own_property_def to_object_def explore_payload_def
          other_payload_def js_def)
  have d: "computeControls example_registry explore_payload
     (get (to_object explore_payload) (js ''form_data'')) \<noteq>
   computeControls example_registry other_payload
     (get (to_object other_payload) (js ''form_data''))"
    by code_simp
  show ?thesis
    using derivation_ignores_unrelated_fields [OF e, of example_registry] e d
      explore_text_decoded other_decoded
    by simp
qed

subsection \<open>The CSRF initialiser\<close>

text \<open>
  C9. Every run of either entry point, whatever the page and the collaborators, calls
  \<^verbatim>\<open>initJQueryAjaxCSRF\<close> exactly once, and that call is the first event of the run, right
  before the call of \<^verbatim>\<open>getElementById\<close>.
\<close>

theorem csrf_first:
  "take 2 (trace (snd (explore env doc start))) =
     [InitJQueryAjaxCSRF, GetElementById (js ''js-explore-view-container'')] \<and>
   count_list (trace (snd (explore env doc start))) InitJQueryAjaxCSRF = 1 \<and>
   take 2 (trace (snd (sqllab env doc start))) =
     [InitJQueryAjaxCSRF, GetElementById (js ''app'')] \<and>
   count_list (trace (snd (sqllab env doc start))) InitJQueryAjaxCSRF = 1"
proof -
  obtain r where "trace (snd (explore env doc start)) =
      InitJQueryAjaxCSRF # GetElementById (js ''js-explore-view-container'') # r"
    and "InitJQueryAjaxCSRF \<notin> set r"
    using explore_trace by blast
  then have e: "take 2 (trace (snd (explore env doc start))) =
      [InitJQueryAjaxCSRF, GetElementById (js ''js-explore-view-container'')] \<and>
    count_list (trace (snd (explore env doc start))) InitJQueryAjaxCSRF = 1"
    by (intro first_once) simp_all
  obtain r' where "trace (snd (sqllab env doc start)) =
      InitJQueryAjaxCSRF # GetElementById (js ''app'') # r'"
    and "InitJQueryAjaxCSRF \<notin> set r'"
    using sqllab_trace by blast
  then have "take 2 (trace (snd (sqllab env doc start))) =
      [InitJQueryAjaxCSRF, GetElementById (js ''app'')] \<and>
    count_list (trace (snd (sqllab env doc start))) InitJQueryAjaxCSRF = 1"
    by (intro first_once) simp_all
  with e show ?thesis by simp
qed


theorem csrf_first_witness:
  "take 2 (trace (snd (explore example_env explore_page start))) =
     [InitJQueryAjaxCSRF, GetElementById (js ''js-explore-view-container'')] \<and>
   count_list (trace (snd (explore example_env explore_page start))) InitJQueryAjaxCSRF = 1 \<and>
   take 2 (trace (snd (sqllab example_env explore_page start))) =
     [InitJQueryAjaxCSRF, GetElementById (js ''app'')] \<and>
   count_list (trace (snd (sqllab example_env explore_page start))) InitJQueryAjaxCSRF = 1"
  using csrf_first [of example_env explore_page] by simp

subsection \<open>The target of the merge\<close>

text \<open>
  C10. When the payload is an object, the explore entry point merges into that object:
  the variable of the payload and the merged state are the same address, the heap holds
  one object, and that object is the payload without \<^verbatim>\<open>form_data\<close> and with every field of
  the literal. The SQL Lab entry point merges into a new empty object: the payload stays
  at its address as it was decoded, and the merged state is the object after it.
\<close>

theorem merge_target:
  "(explore env doc start = (Inr m, w) \<longrightarrow>
    decoded doc (js ''js-explore-view-container'') = Some p \<longrightarrow>
    is_object p \<longrightarrow>
    getFormDataFromControls env (controls m) = Inr f \<longrightarrow>
      bootstrapData m = Ref (bootstrappedState m) \<and>
      heap w = [assign (initial_fields (JNumber (now env 0)) (controls m) f)
                  (remove (js ''form_data'') (to_object p))] \<and>
      list_all (\<lambda>(k, v). field w (bootstrappedState m) k = Some v)
        (initial_fields (JNumber (now env 0)) (controls m) f))
   \<and>
   (sqllab env doc' start = (Inr m', w') \<longrightarrow>
    decoded doc' (js ''app'') = Some p' \<longrightarrow>
    is_object p' \<longrightarrow>
    getInitialState env (get (to_object p') (js ''defaultDbId'')) = Inr d \<longrightarrow>
      sql_bootstrapData m' = Ref 0 \<and> state m' = 1 \<and>
      heap w' = [to_object p',
                 assign (own_enumerable (to_object p'))
                   (assign (own_enumerable (to_object d)) \<lparr>exotic = JUndefined, props = []\<rparr>)])"
proof (intro conjI impI)
  assume "explore env doc start = (Inr m, w)"
    and "decoded doc (js ''js-explore-view-container'') = Some p"
    and "is_object p"
    and "getFormDataFromControls env (controls m) = Inr f"
  then have a: "bootstrapData m = Ref 0" and b: "bootstrappedState m = 0"
    and h: "heap w = [assign (initial_fields (JNumber (now env 0)) (controls m) f)
                  (remove (js ''form_data'') (to_object p))]"
    by (auto elim!: explore_success)
  from a b show "bootstrapData m = Ref (bootstrappedState m)" by simp
  from h show "heap w = [assign (initial_fields (JNumber (now env 0)) (controls m) f)
                  (remove (js ''form_data'') (to_object p))]" .
  from b h show "list_all (\<lambda>(k, v). field w (bootstrappedState m) k = Some v)
        (initial_fields (JNumber (now env 0)) (controls m) f)"
    by (auto simp: list_all_iff field_def deref_def literal_wins)
next
  assume "sqllab env doc' start = (Inr m', w')"
    and "decoded doc' (js ''app'') = Some p'"
    and "is_object p'"
    and "getInitialState env (get (to_object p') (js ''defaultDbId'')) = Inr d"
  then show "sql_bootstrapData m' = Ref 0" and "state m' = 1"
    and "heap w' = [to_object p',
                 assign (own_enumerable (to_object p'))
                   (assign (own_enumerable (to_object d)) \<lparr>exotic = JUndefined, props = []\<rparr>)]"
    by (auto elim!: sqllab_success)
qed

theorem merge_target_witness:
  "explore example_env explore_page start = (Inr (projr (fst explore_example)), snd explore_example) \<and>
   decoded explore_page (js ''js-explore-view-container'') = Some explore_payload \<and>
   is_object explore_payload \<and>
   bootstrapData (projr (fst explore_example)) = Ref (bootstrappedState (projr (fst explore_example))) \<and>
   length (heap (snd explore_example)) = 1 \<and>
   sqllab example_env sqllab_page start = (Inr (projr (fst sqllab_example)), snd sqllab_example) \<and>
   decoded sqllab_page (js ''app'') = Some sqllab_payload \<and>
   is_object sqllab_payload \<and>
   sql_bootstrapData (projr (fst sqllab_example)) = Ref 0 \<and>
   state (projr (fst sqllab_example)) = 1 \<and>
   deref (snd sqllab_example) 0 = Some (to_object sqllab_payload)"
proof -
  have o: "is_object explore_payload" "is_object sqllab_payload"
    by (simp_all add: explore_payload_def sqllab_payload_def)
  have d: "getInitialState example_env (get (to_object sqllab_payload) (js ''defaultDbId'')) =
      Inr (JObject [(js ''defaultDbId'', get (to_object sqllab_payload) (js ''defaultDbId'')),
                    (js ''queries'', JObject []), (js ''alerts'', JArray [])])"
    by (simp add: example_initial example_defaults_def)
  show ?thesis
    using merge_target [of example_env explore_page "projr (fst explore_example)"
        "snd explore_example" explore_payload
        "computeFormData (controls (projr (fst explore_example)))"
        sqllab_page "projr (fst sqllab_example)" "snd sqllab_example" sqllab_payload]
      explore_example_ok explore_decoded sqllab_example_ok sqllab_decoded o d example_formData
    by (simp add: deref_def)
qed

end
